theory Spec2Isabelle
  imports Main "HOL-Library.Log_Nat"
begin

section \<open>JavaScript numbers\<close>

text \<open>
  Amounts, quantities and prices are JavaScript Numbers: IEEE-754 binary64 values. A finite
  double is modelled by the rational it denotes (the two zeros are identified: nothing here
  divides), the other values by constructors of their own. \<open>+\<close> and \<open>*\<close> compute the exact
  result and round it to the nearest double, ties to even.
\<close>

datatype number = Num rat | PosInfinity | NegInfinity | NaN

definition pow2 :: "int \<Rightarrow> rat" where
  "pow2 e = (if 0 \<le> e then 2 ^ nat e else 1 / 2 ^ nat (- e))"

text \<open>The binary exponent of a positive rational: \<open>2 ^ ilog2 x \<le> x < 2 ^ (ilog2 x + 1)\<close>.\<close>

definition ilog2 :: "rat \<Rightarrow> int" where
  "ilog2 x = (if 1 \<le> x then bitlen \<lfloor>x\<rfloor> - 1 else - bitlen (\<lceil>1 / x\<rceil> - 1))"

definition round_half_even :: "rat \<Rightarrow> int" where
  "round_half_even y = (let f = \<lfloor>y\<rfloor>; r = y - of_int f in
     if r < 1 / 2 then f else if 1 / 2 < r then f + 1 else if even f then f else f + 1)"

text \<open>
  Rounding to binary64: 53 significant bits, exponents from \<open>-1022\<close> (below it the spacing
  of the subnormals, \<open>2 ^ -1074\<close>, stays) to \<open>1023\<close> (a rounded magnitude beyond it is
  an infinity).
\<close>

definition round_double :: "rat \<Rightarrow> number" where
  "round_double x = (if x = 0 then Num 0 else
     (let e = max (ilog2 \<bar>x\<bar>) (- 1022);
          u = pow2 (e - 52);
          y = of_int (round_half_even (\<bar>x\<bar> / u)) * u
      in if 1023 < ilog2 y then (if 0 < x then PosInfinity else NegInfinity)
         else Num (sgn x * y)))"


text \<open>The Number a decimal literal of the source or of a JSON body denotes.\<close>

definition lit :: "rat \<Rightarrow> number" where
  "lit q = round_double q"

fun js_add :: "number \<Rightarrow> number \<Rightarrow> number" where
  "js_add (Num a) (Num b) = round_double (a + b)"
| "js_add NaN _ = NaN"
| "js_add _ NaN = NaN"
| "js_add PosInfinity NegInfinity = NaN"
| "js_add NegInfinity PosInfinity = NaN"
| "js_add PosInfinity _ = PosInfinity"
| "js_add _ PosInfinity = PosInfinity"
| "js_add NegInfinity _ = NegInfinity"
| "js_add _ NegInfinity = NegInfinity"

definition inf_of_sign :: "bool \<Rightarrow> number" where
  "inf_of_sign positive = (if positive then PosInfinity else NegInfinity)"

fun js_mul :: "number \<Rightarrow> number \<Rightarrow> number" where
  "js_mul (Num a) (Num b) = round_double (a * b)"
| "js_mul NaN _ = NaN"
| "js_mul _ NaN = NaN"
| "js_mul PosInfinity (Num b) = (if b = 0 then NaN else inf_of_sign (0 < b))"
| "js_mul NegInfinity (Num b) = (if b = 0 then NaN else inf_of_sign (b < 0))"
| "js_mul (Num a) PosInfinity = (if a = 0 then NaN else inf_of_sign (0 < a))"
| "js_mul (Num a) NegInfinity = (if a = 0 then NaN else inf_of_sign (a < 0))"
| "js_mul PosInfinity PosInfinity = PosInfinity"
| "js_mul NegInfinity NegInfinity = PosInfinity"
| "js_mul PosInfinity NegInfinity = NegInfinity"
| "js_mul NegInfinity PosInfinity = NegInfinity"

section \<open>HTTP calls between the services\<close>

text \<open>
  A call through axios either resolves with the body of the response or rejects: on a
  timeout, when no response arrives, and (axios' default \<open>validateStatus\<close>) on every
  status outside 200..299.
\<close>

datatype axios_error = Timeout | NoResponse | BadStatus nat

datatype 'a axios_result = Resolved 'a | Rejected axios_error

definition settle :: "nat \<times> 'a \<Rightarrow> 'a axios_result" where
  "settle r = (if 200 \<le> fst r \<and> fst r < 300 then Resolved (snd r)
               else Rejected (BadStatus (fst r)))"

section \<open>Domain events and their delivery\<close>

text \<open>
  Modelled from the spec: the \<open>EventTypes\<close> table of the shared-contracts package is not
  among the sources. The kinds are the members the services name
  (\<open>EventTypes.ORDER_CREATED\<close>, \<open>ORDER_UPDATED\<close>, \<open>PAYMENT_PROCESSED\<close>,
  \<open>PAYMENT_FAILED\<close>, \<open>USER_CREATED\<close>) and the kind \<open>PaymentRefunded\<close> of the
  specification's data model, which no source file names.
\<close>

datatype event_type =
  ORDER_CREATED | ORDER_UPDATED | PAYMENT_PROCESSED | PAYMENT_FAILED | USER_CREATED
  | PAYMENT_REFUNDED

record Item =
  productId :: string
  quantity :: number
  unitPrice :: number

record OrderCreatedPayload =
  oc_orderId :: string
  oc_userId :: string
  oc_totalAmount :: number
  oc_items :: "Item list"
  oc_status :: string
  oc_paymentId :: "string option"

record OrderUpdatedPayload =
  ou_orderId :: string
  ou_userId :: string
  ou_status :: string
  ou_previousStatus :: string

record PaymentProcessedPayload =
  pp_paymentId :: string
  pp_orderId :: string
  pp_status :: string
  pp_amount :: number
  pp_currency :: string
  pp_transactionId :: "string option"
  pp_processedAt :: "string option"
  pp_error :: "string option"

record RefundPayload =
  rf_paymentId :: string
  rf_orderId :: string
  rf_reason :: string
  rf_amount :: number
  rf_refundedAt :: "string option"
  rf_refundTransactionId :: "string option"

datatype payload =
  OrderCreated OrderCreatedPayload
  | OrderUpdated OrderUpdatedPayload
  | PaymentProcessed PaymentProcessedPayload
  | Refund RefundPayload

record Event =
  eventId :: string
  eventType :: event_type
  timestamp :: string
  payload :: payload

datatype subscriber = NOTIFICATION_SERVICE | ANALYTICS_SERVICE

text \<open>One \<open>axios.post\<close> of an event to a subscriber's \<open>/events\<close>, and whether it resolved.\<close>

record attempt =
  target :: subscriber
  sent :: Event
  delivered :: bool

text \<open>
  What \<open>emitEvent\<close> reads from outside: \<open>generateEventId()\<close>, the clock, and how the
  two posts end.
\<close>

record emit_env =
  newEventId :: string
  eventTime :: string
  notificationPost :: "unit axios_result"
  analyticsPost :: "unit axios_result"

text \<open>\<open>try { await axios.post(url, event) } catch (err) { log }\<close>: a rejection ends there.\<close>

definition try_post :: "subscriber \<Rightarrow> Event \<Rightarrow> unit axios_result \<Rightarrow> attempt" where
  "try_post sub event r =
     (case r of
        Resolved _ \<Rightarrow> \<lparr>target = sub, sent = event, delivered = True\<rparr>
      | Rejected err \<Rightarrow> \<lparr>target = sub, sent = event, delivered = False\<rparr>)"

text \<open>
  \<open>emitEvent\<close> of order-service and of payment-service (the same function in both
  files): the event it returns, and the posts it made, in order.
\<close>

definition emitEvent :: "emit_env \<Rightarrow> event_type \<Rightarrow> payload \<Rightarrow> Event \<times> attempt list" where
  "emitEvent env etype pl =
     (let event = \<lparr>eventId = newEventId env, eventType = etype,
                     timestamp = eventTime env, payload = pl\<rparr>;
          a1 = try_post NOTIFICATION_SERVICE event (notificationPost env);
          a2 = try_post ANALYTICS_SERVICE event (analyticsPost env)
      in (event, [a1, a2]))"

text \<open>An environment of \<open>emitEvent\<close> with the outcomes of the two posts replaced.\<close>

definition with_posts :: "emit_env \<Rightarrow> unit axios_result \<Rightarrow> unit axios_result \<Rightarrow> emit_env" where
  "with_posts e n a = e\<lparr>notificationPost := n, analyticsPost := a\<rparr>"

fun resolved :: "'a axios_result \<Rightarrow> bool" where
  "resolved (Resolved d) = True"
| "resolved (Rejected err) = False"

text \<open>
  What a request handler leaves behind: the response (status code and body), the store of
  its service, the events it emitted and the posts made for them.
\<close>

record ('b, 's) result =
  reply :: "nat \<times> 'b"
  store :: 's
  emitted :: "Event list"
  posts :: "attempt list"

section \<open>order-service\<close>

record Order =
  o_id :: string
  o_userId :: string
  o_items :: "Item list"
  o_totalAmount :: number
  o_status :: string
  o_paymentId :: "string option"
  o_createdAt :: string
  o_updatedAt :: string

type_synonym orders = "string \<rightharpoonup> Order"

definition ord_001 :: Order where
  "ord_001 =
     \<lparr>o_id = ''ord-001'', o_userId = ''usr-001'',
      o_items = [\<lparr>productId = ''prod-001'', quantity = lit 2, unitPrice = lit (2999 / 100)\<rparr>,
                 \<lparr>productId = ''prod-002'', quantity = lit 1, unitPrice = lit (4999 / 100)\<rparr>],
      o_totalAmount = lit (10997 / 100), o_status = ''confirmed'',
      o_paymentId = Some ''pay-001'',
      o_createdAt = ''2024-01-20T10:00:00Z'', o_updatedAt = ''2024-01-20T10:05:00Z''\<rparr>"

definition ord_002 :: Order where
  "ord_002 =
     \<lparr>o_id = ''ord-002'', o_userId = ''usr-002'',
      o_items = [\<lparr>productId = ''prod-003'', quantity = lit 3, unitPrice = lit (1999 / 100)\<rparr>],
      o_totalAmount = lit (5997 / 100), o_status = ''pending'', o_paymentId = None,
      o_createdAt = ''2024-01-21T14:30:00Z'', o_updatedAt = ''2024-01-21T14:30:00Z''\<rparr>"

text \<open>The store as the module leaves it after loading.\<close>

definition seeded_orders :: orders where
  "seeded_orders = [''ord-001'' \<mapsto> ord_001, ''ord-002'' \<mapsto> ord_002]"

text \<open>\<open>items.reduce((sum, item) => sum + (item.quantity * item.unitPrice), 0)\<close>\<close>

definition calculateTotal :: "Item list \<Rightarrow> number" where
  "calculateTotal its =
     foldl (\<lambda>sum item. js_add sum (js_mul (quantity item) (unitPrice item))) (Num 0) its"




text \<open>
  The body of a response of payment-service's \<open>POST /payments\<close>: the payment as JSON
  (201 and 402) or an error object (400 and 500).
\<close>

record PaymentJson =
  pj_id :: string
  pj_orderId :: string
  pj_amount :: number
  pj_currency :: string
  pj_status :: string
  pj_paymentMethod :: string
  pj_transactionId :: "string option"
  pj_processedAt :: "string option"
  pj_error :: "string option"

datatype payment_body = PaymentBody PaymentJson | PaymentError string

text \<open>\<open>payment.id\<close> and \<open>payment.status\<close> on a body; \<open>None\<close> is \<open>undefined\<close>.\<close>

fun body_id :: "payment_body \<Rightarrow> string option" where
  "body_id (PaymentBody p) = Some (pj_id p)"
| "body_id (PaymentError e) = None"

fun body_status :: "payment_body \<Rightarrow> string option" where
  "body_status (PaymentBody p) = Some (pj_status p)"
| "body_status (PaymentError e) = None"

datatype order_body =
  OrderCreatedBody Order "payment_body option"
  | StatusUpdatedBody Order
  | OrderError string

record CreateOrderRequest =
  req_userId :: string
  req_items :: "Item list"

text \<open>
  What \<open>POST /orders\<close> reads from outside: the outcome of \<open>GET /users/:id\<close> on
  user-service, \<open>generateOrderId()\<close>, the clock at each \<open>new Date()\<close>, the outcome of
  \<open>POST /payments\<close> on payment-service, and what \<open>emitEvent\<close> reads.
\<close>

record 'u create_env =
  userLookup :: "'u axios_result"
  newOrderId :: string
  createdTime :: string
  updatedTime :: string
  paymentCall :: "payment_body axios_result"
  paidTime :: string
  createEmit :: emit_env

text \<open>
  \<open>app.post('/orders')\<close>. \<open>validate\<close> stands for
  \<open>validate(schemas.CreateOrderRequestSchema, req.body)\<close> of shared-contracts, which is
  not among the sources: it returns the error details, or \<open>None\<close> for a valid body.
  The order object is shared between the store and the response, so the update after the
  payment call is an update of the stored order. A resolved call carries an object as its
  body, so reading \<open>user.fullName\<close> and \<open>payment.id\<close> does not throw, and nothing
  else in the handler throws: the outer \<open>catch\<close> with its 500 is never entered.
\<close>

definition createOrder ::
  "(CreateOrderRequest \<Rightarrow> string option) \<Rightarrow> 'u create_env \<Rightarrow> CreateOrderRequest \<Rightarrow> orders
     \<Rightarrow> (order_body, orders) result" where
  "createOrder validate env req orders =
     (case validate req of
        Some details \<Rightarrow>
          \<lparr>reply = (400, OrderError ''Invalid request''), store = orders,
           emitted = [], posts = []\<rparr>
      | None \<Rightarrow>
         (case userLookup env of
            Rejected err \<Rightarrow>
              \<lparr>reply = (400, OrderError ''Invalid user''), store = orders,
               emitted = [], posts = []\<rparr>
          | Resolved user \<Rightarrow>
             (let totalAmount = calculateTotal (req_items req);
                  orderId = newOrderId env;
                  order = \<lparr>o_id = orderId, o_userId = req_userId req, o_items = req_items req,
                           o_totalAmount = totalAmount, o_status = ''pending'',
                           o_paymentId = None, o_createdAt = createdTime env,
                           o_updatedAt = updatedTime env\<rparr>;
                  orders1 = orders(orderId \<mapsto> order);
                  (order', payment) =
                     (case paymentCall env of
                        Resolved payment \<Rightarrow>
                          (order\<lparr>o_paymentId := body_id payment,
                                 o_status := (if body_status payment = Some ''completed''
                                              then ''confirmed'' else ''pending''),
                                 o_updatedAt := paidTime env\<rparr>,
                           Some payment)
                      | Rejected err \<Rightarrow> (order, None));
                  orders2 = orders1(orderId \<mapsto> order');
                  (event, attempts) =
                     emitEvent (createEmit env) ORDER_CREATED
                       (OrderCreated \<lparr>oc_orderId = orderId, oc_userId = req_userId req,
                                      oc_totalAmount = totalAmount, oc_items = req_items req,
                                      oc_status = o_status order',
                                      oc_paymentId = o_paymentId order'\<rparr>)
              in \<lparr>reply = (201, OrderCreatedBody order' payment), store = orders2,
                  emitted = [event], posts = attempts\<rparr>)))"

definition validStatuses :: "string list" where
  "validStatuses = [''pending'', ''confirmed'', ''shipped'', ''delivered'', ''cancelled'']"

record status_env =
  statusTime :: string
  statusEmit :: emit_env

text \<open>
  \<open>app.put('/orders/:id/status')\<close>. The statements run in the source's order: the status
  is assigned, then the timestamp, then the payload of the event is built from the order.
\<close>

definition updateStatus ::
  "status_env \<Rightarrow> string \<Rightarrow> string \<Rightarrow> orders \<Rightarrow> (order_body, orders) result" where
  "updateStatus env ident status orders =
     (case orders ident of
        None \<Rightarrow>
          \<lparr>reply = (404, OrderError ''Order not found''), store = orders,
           emitted = [], posts = []\<rparr>
      | Some order0 \<Rightarrow>
          if status \<notin> set validStatuses then
            \<lparr>reply = (400, OrderError ''Invalid status''), store = orders,
             emitted = [], posts = []\<rparr>
          else
            (let order1 = order0\<lparr>o_status := status\<rparr>;
                 order2 = order1\<lparr>o_updatedAt := statusTime env\<rparr>;
                 orders' = orders(ident \<mapsto> order2);
                 (event, attempts) =
                    emitEvent (statusEmit env) ORDER_UPDATED
                      (OrderUpdated \<lparr>ou_orderId = ident, ou_userId = o_userId order2,
                                     ou_status = status,
                                     ou_previousStatus = o_status order2\<rparr>)
             in \<lparr>reply = (200, StatusUpdatedBody order2), store = orders',
                 emitted = [event], posts = attempts\<rparr>))"

section \<open>user-service\<close>

datatype 'u user_body = UserBody 'u | UserError string

text \<open>\<open>app.get('/users/:id')\<close>: the stored user, or 404.\<close>

definition getUser :: "(string \<rightharpoonup> 'u) \<Rightarrow> string \<Rightarrow> nat \<times> 'u user_body" where
  "getUser users ident =
     (case users ident of
        None \<Rightarrow> (404, UserError ''User not found'')
      | Some user \<Rightarrow> (200, UserBody user))"

section \<open>payment-service\<close>

record Payment =
  p_id :: string
  p_orderId :: string
  p_amount :: number
  p_currency :: string
  p_status :: string
  p_paymentMethod :: string
  p_createdAt :: "string option"
  p_processedAt :: "string option"
  p_transactionId :: "string option"
  p_error :: "string option"
  p_refundedAt :: "string option"
  p_refundTransactionId :: "string option"

type_synonym payments = "string \<rightharpoonup> Payment"

definition pay_001 :: Payment where
  "pay_001 =
     \<lparr>p_id = ''pay-001'', p_orderId = ''ord-001'', p_amount = lit (10997 / 100),
      p_currency = ''USD'', p_status = ''completed'', p_paymentMethod = ''card'',
      p_createdAt = None, p_processedAt = Some ''2024-01-20T10:05:00Z'',
      p_transactionId = Some ''txn_1234567890'', p_error = None,
      p_refundedAt = None, p_refundTransactionId = None\<rparr>"

definition seeded_payments :: payments where
  "seeded_payments = [''pay-001'' \<mapsto> pay_001]"

record PaymentRequest =
  pr_orderId :: string
  pr_amount :: number
  pr_currency :: "string option"
  pr_paymentMethod :: string

text \<open>\<open>x || d\<close> on a string that may be absent: the empty string is falsy too.\<close>

definition or_else :: "string option \<Rightarrow> 'a \<Rightarrow> (string \<Rightarrow> 'a) \<Rightarrow> 'a" where
  "or_else x d f = (case x of None \<Rightarrow> d | Some v \<Rightarrow> if v = [] then d else f v)"

record ProcessResult =
  ps_status :: string
  ps_transactionId :: "string option"
  ps_error :: "string option"
  ps_message :: string

text \<open>
  What \<open>POST /payments\<close> reads from outside: \<open>generatePaymentId()\<close>, the clock, the
  draw \<open>Math.random() > 0.1\<close> of \<open>processPayment\<close>, \<open>generateTransactionId()\<close>, and
  what \<open>emitEvent\<close> reads.
\<close>

record pay_env =
  newPaymentId :: string
  payCreatedTime :: string
  settles :: bool
  newTransactionId :: string
  processedTime :: string
  payEmit :: emit_env

definition processPayment :: "pay_env \<Rightarrow> ProcessResult" where
  "processPayment env =
     (if settles env then
        \<lparr>ps_status = ''completed'', ps_transactionId = Some (newTransactionId env),
         ps_error = None, ps_message = ''Payment processed successfully''\<rparr>
      else
        \<lparr>ps_status = ''failed'', ps_transactionId = None,
         ps_error = Some ''Payment declined by processor'',
         ps_message = ''Your payment method was declined. Please try again.''\<rparr>)"

text \<open>
  \<open>app.post('/payments')\<close>. \<open>validate\<close> stands for
  \<open>validate(schemas.PaymentRequestSchema, req.body)\<close> of shared-contracts.
\<close>

definition postPayments ::
  "(PaymentRequest \<Rightarrow> string option) \<Rightarrow> pay_env \<Rightarrow> PaymentRequest \<Rightarrow> payments
     \<Rightarrow> (payment_body, payments) result" where
  "postPayments validate env req payments =
     (case validate req of
        Some details \<Rightarrow>
          \<lparr>reply = (400, PaymentError ''Invalid request''), store = payments,
           emitted = [], posts = []\<rparr>
      | None \<Rightarrow>
         (let paymentId = newPaymentId env;
              payment = \<lparr>p_id = paymentId, p_orderId = pr_orderId req,
                         p_amount = pr_amount req,
                         p_currency = or_else (pr_currency req) ''USD'' (\<lambda>c. c),
                         p_status = ''pending'', p_paymentMethod = pr_paymentMethod req,
                         p_createdAt = Some (payCreatedTime env), p_processedAt = None,
                         p_transactionId = None, p_error = None,
                         p_refundedAt = None, p_refundTransactionId = None\<rparr>;
              payments1 = payments(paymentId \<mapsto> payment);
              processResult = processPayment env;
              payment1 = payment\<lparr>p_status := ps_status processResult,
                                 p_processedAt := Some (processedTime env)\<rparr>;
              payment2 = (if ps_status processResult = ''completed''
                          then payment1\<lparr>p_transactionId := ps_transactionId processResult\<rparr>
                          else payment1\<lparr>p_error := ps_error processResult\<rparr>);
              payments2 = payments1(paymentId \<mapsto> payment2);
              (event, attempts) =
                 emitEvent (payEmit env) PAYMENT_PROCESSED
                   (PaymentProcessed
                      \<lparr>pp_paymentId = paymentId, pp_orderId = pr_orderId req,
                       pp_status = p_status payment2, pp_amount = pr_amount req,
                       pp_currency = p_currency payment2,
                       pp_transactionId = p_transactionId payment2,
                       pp_processedAt = p_processedAt payment2,
                       pp_error = or_else (p_error payment2) None Some\<rparr>);
              response = \<lparr>pj_id = paymentId, pj_orderId = pr_orderId req,
                          pj_amount = pr_amount req, pj_currency = p_currency payment2,
                          pj_status = p_status payment2,
                          pj_paymentMethod = pr_paymentMethod req,
                          pj_transactionId = p_transactionId payment2,
                          pj_processedAt = p_processedAt payment2, pj_error = None\<rparr>
          in if p_status payment2 = ''failed'' then
               \<lparr>reply = (402, PaymentBody (response\<lparr>pj_error := p_error payment2\<rparr>)),
                store = payments2, emitted = [event], posts = attempts\<rparr>
             else
               \<lparr>reply = (201, PaymentBody response), store = payments2,
                emitted = [event], posts = attempts\<rparr>))"

datatype refund_body = RefundedBody Payment | RefundError string

record refund_env =
  refundTime :: string
  newRefundTransactionId :: string
  refundEmit :: emit_env

text \<open>
  \<open>app.post('/payments/:id/refund')\<close> runs in two turns of the event loop, with
  \<open>await new Promise(resolve => setTimeout(resolve, 500))\<close> between them; other requests
  run in between. The first turn looks the payment up and checks its status: it answers
  404 or 400, or goes on to wait, holding the payment it found.
\<close>

datatype refund_turn = Answered "nat \<times> refund_body" | Waiting Payment

definition refund_check :: "string \<Rightarrow> payments \<Rightarrow> refund_turn" where
  "refund_check ident payments =
     (case payments ident of
        None \<Rightarrow> Answered (404, RefundError ''Payment not found'')
      | Some payment0 \<Rightarrow>
          if p_status payment0 \<noteq> ''completed'' then Answered (400, RefundError ''Cannot refund'')
          else Waiting payment0)"

text \<open>
  The second turn, after the timer, on the store as it is by then: it writes the three
  fields of the payment it holds, stores it, emits the event and answers 200. The payment
  held is the object of the store; between the check and this turn only the write of
  another refund can have touched it, and that sets the same three fields, so the record
  stored is the one found by the check with the three fields set.
\<close>

definition refund_write ::
  "refund_env \<Rightarrow> string \<Rightarrow> Payment \<Rightarrow> payments \<Rightarrow> (refund_body, payments) result" where
  "refund_write env ident payment0 payments =
     (let payment = payment0\<lparr>p_status := ''refunded'',
                              p_refundedAt := Some (refundTime env),
                              p_refundTransactionId := Some (newRefundTransactionId env)\<rparr>;
          payments' = payments(ident \<mapsto> payment);
          (event, attempts) =
             emitEvent (refundEmit env) PAYMENT_FAILED
               (Refund \<lparr>rf_paymentId = ident, rf_orderId = p_orderId payment,
                        rf_reason = ''refund'', rf_amount = p_amount payment,
                        rf_refundedAt = p_refundedAt payment,
                        rf_refundTransactionId = p_refundTransactionId payment\<rparr>)
      in \<lparr>reply = (200, RefundedBody payment), store = payments',
          emitted = [event], posts = attempts\<rparr>)"

text \<open>A refund request with no other request between its two turns.\<close>

definition refund :: "refund_env \<Rightarrow> string \<Rightarrow> payments \<Rightarrow> (refund_body, payments) result" where
  "refund env ident payments =
     (case refund_check ident payments of
        Answered r \<Rightarrow> \<lparr>reply = r, store = payments, emitted = [], posts = []\<rparr>
      | Waiting payment0 \<Rightarrow> refund_write env ident payment0 payments)"

text \<open>
  Two refund requests for the same payment, the second arriving while the first waits
  for its timer: both first turns run on the store as it is, then the second turns, in
  the order of arrival. The results of the first and of the second request.
\<close>

definition refund_overlapping ::
  "refund_env \<Rightarrow> refund_env \<Rightarrow> string \<Rightarrow> payments
     \<Rightarrow> (refund_body, payments) result \<times> (refund_body, payments) result" where
  "refund_overlapping env1 env2 ident payments =
     (let turn1 = refund_check ident payments;
          turn2 = refund_check ident payments;
          result1 = (case turn1 of
                       Answered r \<Rightarrow> \<lparr>reply = r, store = payments, emitted = [], posts = []\<rparr>
                     | Waiting payment0 \<Rightarrow> refund_write env1 ident payment0 payments);
          result2 = (case turn2 of
                       Answered r \<Rightarrow>
                         \<lparr>reply = r, store = store result1, emitted = [], posts = []\<rparr>
                     | Waiting payment0 \<Rightarrow> refund_write env2 ident payment0 (store result1))
      in (result1, result2))"

section \<open>notification-service\<close>

record Notification =
  n_id :: string
  n_userId :: string
  n_type :: string
  n_subject :: string
  n_message :: string
  n_status :: string
  n_createdAt :: string
  n_sentAt :: "string option"

type_synonym notifications = "string \<rightharpoonup> Notification"

record NotificationRequest =
  nr_userId :: string
  nr_type :: string
  nr_subject :: string
  nr_message :: string

record SendResult =
  sr_success :: bool
  sr_sentAt :: "string option"
  sr_error :: "string option"

text \<open>
  What \<open>POST /notify\<close> reads from outside: the outcome of \<open>GET /users/:id\<close> on
  user-service, \<open>generateNotificationId()\<close>, the clock, and the draw
  \<open>Math.random() > 0.05\<close> of \<open>sendNotification\<close>.
\<close>

record 'u notify_env =
  notifyUser :: "'u axios_result"
  newNotificationId :: string
  notifyCreatedTime :: string
  sendSucceeds :: bool
  sentTime :: string

definition sendNotification :: "'u notify_env \<Rightarrow> SendResult" where
  "sendNotification env =
     (if sendSucceeds env then
        \<lparr>sr_success = True, sr_sentAt = Some (sentTime env), sr_error = None\<rparr>
      else
        \<lparr>sr_success = False, sr_sentAt = None, sr_error = Some ''Failed to deliver''\<rparr>)"

text \<open>\<open>fetchUser\<close>: the body of the response, or \<open>null\<close> when the call rejects.\<close>

definition fetchUser :: "'u axios_result \<Rightarrow> 'u option" where
  "fetchUser r = (case r of Resolved d \<Rightarrow> Some d | Rejected err \<Rightarrow> None)"

datatype notify_body = NotifyBody Notification string | NotifyError string

text \<open>
  \<open>app.post('/notify')\<close>. \<open>validate\<close> stands for
  \<open>validate(schemas.NotificationRequestSchema, req.body)\<close> of shared-contracts.
\<close>

definition notify ::
  "(NotificationRequest \<Rightarrow> string option) \<Rightarrow> 'u notify_env \<Rightarrow> NotificationRequest
     \<Rightarrow> notifications \<Rightarrow> (notify_body, notifications) result" where
  "notify validate env req notifications =
     (case validate req of
        Some details \<Rightarrow>
          \<lparr>reply = (400, NotifyError ''Invalid request''), store = notifications,
           emitted = [], posts = []\<rparr>
      | None \<Rightarrow>
         (case fetchUser (notifyUser env) of
            None \<Rightarrow>
              \<lparr>reply = (404, NotifyError ''User not found''), store = notifications,
               emitted = [], posts = []\<rparr>
          | Some user \<Rightarrow>
             (let notificationId = newNotificationId env;
                  notification = \<lparr>n_id = notificationId, n_userId = nr_userId req,
                                  n_type = nr_type req, n_subject = nr_subject req,
                                  n_message = nr_message req, n_status = ''pending'',
                                  n_createdAt = notifyCreatedTime env, n_sentAt = None\<rparr>;
                  notifications1 = notifications(notificationId \<mapsto> notification);
                  sendResult = sendNotification env;
                  notification' =
                     notification\<lparr>n_status := (if sr_success sendResult then ''sent''
                                                 else ''failed''),
                                   n_sentAt := sr_sentAt sendResult\<rparr>;
                  notifications2 = notifications1(notificationId \<mapsto> notification')
              in \<lparr>reply = (201, NotifyBody notification'
                                 (if sr_success sendResult
                                  then ''Notification sent successfully''
                                  else ''Failed to send notification'')),
                  store = notifications2, emitted = [], posts = []\<rparr>)))"

section \<open>The specification's words, as definitions\<close>


text \<open>
  The state machine as the specification words it, to compare \<open>updateStatus\<close> with:
  pending to confirmed to shipped to delivered, and cancelled from pending or confirmed.
\<close>

fun spec_transition :: "string \<Rightarrow> string \<Rightarrow> bool" where
  "spec_transition from to =
     ((from = ''pending'' \<and> to = ''confirmed'') \<or>
      (from = ''confirmed'' \<and> to = ''shipped'') \<or>
      (from = ''shipped'' \<and> to = ''delivered'') \<or>
      (from = ''pending'' \<and> to = ''cancelled'') \<or>
      (from = ''confirmed'' \<and> to = ''cancelled''))"

section \<open>Concrete runs\<close>

text \<open>Environments and requests for the concrete runs below.\<close>

definition demo_emit :: emit_env where
  "demo_emit = \<lparr>newEventId = ''evt-1'', eventTime = ''2024-02-01T00:00:02Z'',
                 notificationPost = Rejected NoResponse, analyticsPost = Resolved ()\<rparr>"

definition demo_status_env :: status_env where
  "demo_status_env = \<lparr>statusTime = ''2024-02-01T00:00:01Z'', statusEmit = demo_emit\<rparr>"

definition demo_refund_env :: refund_env where
  "demo_refund_env = \<lparr>refundTime = ''2024-02-01T00:00:01Z'',
                       newRefundTransactionId = ''txn_r1'', refundEmit = demo_emit\<rparr>"

definition demo_refund_env2 :: refund_env where
  "demo_refund_env2 = \<lparr>refundTime = ''2024-02-01T00:00:02Z'',
                        newRefundTransactionId = ''txn_r2'', refundEmit = demo_emit\<rparr>"

definition demo_pay_env :: "bool \<Rightarrow> pay_env" where
  "demo_pay_env ok = \<lparr>newPaymentId = ''pay-x1'', payCreatedTime = ''2024-02-01T00:00:00Z'',
                       settles = ok, newTransactionId = ''txn_x1'',
                       processedTime = ''2024-02-01T00:00:01Z'', payEmit = demo_emit\<rparr>"

definition demo_request :: CreateOrderRequest where
  "demo_request = \<lparr>req_userId = ''u1'',
                    req_items = [\<lparr>productId = ''p1'', quantity = lit 2,
                                   unitPrice = lit (2999 / 100)\<rparr>]\<rparr>"


definition demo_payment_request :: PaymentRequest where
  "demo_payment_request = \<lparr>pr_orderId = ''ord-x1'', pr_amount = lit (5998 / 100),
                            pr_currency = Some ''USD'', pr_paymentMethod = ''card''\<rparr>"

definition demo_create_env ::
  "'u axios_result \<Rightarrow> payment_body axios_result \<Rightarrow> 'u create_env" where
  "demo_create_env u p = \<lparr>userLookup = u, newOrderId = ''ord-x1'',
                           createdTime = ''2024-02-01T00:00:00Z'',
                           updatedTime = ''2024-02-01T00:00:00Z'', paymentCall = p,
                           paidTime = ''2024-02-01T00:00:01Z'', createEmit = demo_emit\<rparr>"

definition demo_notify_env :: "'u axios_result \<Rightarrow> bool \<Rightarrow> 'u notify_env" where
  "demo_notify_env u ok = \<lparr>notifyUser = u, newNotificationId = ''ntf-x1'',
                            notifyCreatedTime = ''2024-02-01T00:00:00Z'',
                            sendSucceeds = ok, sentTime = ''2024-02-01T00:00:01Z''\<rparr>"

definition demo_notification_request :: NotificationRequest where
  "demo_notification_request = \<lparr>nr_userId = ''usr-001'', nr_type = ''email'',
                                 nr_subject = ''Hello'', nr_message = ''Your order''\<rparr>"

text \<open>A schema that accepts every body.\<close>

definition demo_payment_json :: PaymentJson where
  "demo_payment_json = \<lparr>pj_id = ''pay-x1'', pj_orderId = ''ord-x1'',
                         pj_amount = lit (5998 / 100), pj_currency = ''USD'',
                         pj_status = ''completed'', pj_paymentMethod = ''card'',
                         pj_transactionId = Some ''txn_x1'',
                         pj_processedAt = Some ''2024-02-01T00:00:01Z'', pj_error = None\<rparr>"

definition demo_created_payload :: OrderCreatedPayload where
  "demo_created_payload = \<lparr>oc_orderId = ''ord-x1'', oc_userId = ''u1'',
                            oc_totalAmount = lit (5998 / 100), oc_items = [],
                            oc_status = ''pending'', oc_paymentId = None\<rparr>"

definition accept_all :: "'r \<Rightarrow> string option" where
  "accept_all r = None"

section \<open>Facts about the numbers\<close>

text \<open>
  \<open>ilog2\<close> is the binary exponent, and \<open>round_double\<close> returns a multiple of the
  spacing of the doubles around its argument that is at most half a spacing away from it.
\<close>

lemma pow2_nonneg: "0 \<le> e \<Longrightarrow> pow2 e = 2 ^ nat e"
  by (simp add: pow2_def)

lemma pow2_nonpos: "e \<le> 0 \<Longrightarrow> pow2 e = 1 / 2 ^ nat (- e)"
  by (cases "e = 0") (simp_all add: pow2_def)

lemma ilog2_bounds_ge1:
  assumes "1 \<le> x"
  shows "pow2 (ilog2 x) \<le> x \<and> x < pow2 (ilog2 x + 1)"
proof -
  define n where "n = \<lfloor>x\<rfloor>"
  define b where "b = bitlen n"
  have n1: "1 \<le> n"
    using assms by (simp add: n_def)
  then have bnd: "2 ^ nat (b - 1) \<le> n \<and> n < 2 ^ nat b"
    unfolding b_def using bitlen_bounds [of n] by simp
  have b1: "1 \<le> b"
    using n1 bitlen_eq_zero_iff [of n] bitlen_nonneg [of n] unfolding b_def by linarith
  have il: "ilog2 x = b - 1"
    using assms by (simp add: ilog2_def n_def b_def)
  have "(2::rat) ^ nat (b - 1) = of_int (2 ^ nat (b - 1))"
    by simp
  also have "\<dots> \<le> of_int n"
    using bnd by (simp only: of_int_le_iff)
  also have "\<dots> \<le> x"
    by (simp add: n_def)
  finally have lo: "pow2 (b - 1) \<le> x"
    using b1 by (simp add: pow2_nonneg)
  have "x < of_int (n + 1)"
    using floor_correct [of x] by (simp add: n_def)
  also have "\<dots> \<le> of_int (2 ^ nat b)"
    using bnd by (simp only: of_int_le_iff) simp
  also have "\<dots> = (2::rat) ^ nat b"
    by simp
  finally have hi: "x < pow2 b"
    using b1 by (simp add: pow2_nonneg)
  show ?thesis
    using lo hi by (simp add: il)
qed

lemma ilog2_bounds_lt1:
  assumes "0 < x" and "x < 1"
  shows "pow2 (ilog2 x) \<le> x \<and> x < pow2 (ilog2 x + 1)"
proof -
  define z where "z = 1 / x"
  define m where "m = \<lceil>z\<rceil> - 1"
  define k where "k = bitlen m"
  have z1: "1 < z"
    using assms by (simp add: z_def)
  have mz: "of_int m < z \<and> z \<le> of_int m + 1"
    unfolding m_def by (simp add: ceiling_correct) 
  have m1: "1 \<le> m"
    using z1 unfolding m_def by (simp add: less_ceiling_iff)
  then have bnd: "2 ^ nat (k - 1) \<le> m \<and> m < 2 ^ nat k"
    unfolding k_def using bitlen_bounds [of m] by simp
  have k1: "1 \<le> k"
    using m1 bitlen_eq_zero_iff [of m] bitlen_nonneg [of m] unfolding k_def by linarith
  have il: "ilog2 x = - k"
    using assms by (simp add: ilog2_def z_def m_def k_def)
  have "z \<le> of_int (m + 1)"
    using mz by simp
  also have "\<dots> \<le> of_int (2 ^ nat k)"
    using bnd by (simp only: of_int_le_iff) simp
  also have "\<dots> = (2::rat) ^ nat k"
    by simp
  finally have "1 / x \<le> 2 ^ nat k"
    by (simp add: z_def)
  then have "1 / 2 ^ nat k \<le> x"
    using assms(1) by (simp add: field_simps)
  then have lo: "pow2 (- k) \<le> x"
    using k1 by (simp add: pow2_nonpos)
  have "(2::rat) ^ nat (k - 1) = of_int (2 ^ nat (k - 1))"
    by simp
  also have "\<dots> \<le> of_int m"
    using bnd by (simp only: of_int_le_iff)
  also have "\<dots> < z"
    using mz by simp
  finally have "2 ^ nat (k - 1) < 1 / x"
    by (simp add: z_def)
  then have "x < 1 / 2 ^ nat (k - 1)"
    using assms(1) by (simp add: field_simps)
  moreover have "pow2 (- k + 1) = 1 / 2 ^ nat (k - 1)"
    using k1 pow2_nonpos [of "- k + 1"] by simp
  ultimately have hi: "x < pow2 (- k + 1)"
    by simp
  show ?thesis
    using lo hi by (simp add: il)
qed

lemma ilog2_bounds:
  "0 < x \<Longrightarrow> pow2 (ilog2 x) \<le> x \<and> x < pow2 (ilog2 x + 1)"
  using ilog2_bounds_ge1 [of x] ilog2_bounds_lt1 [of x] by (cases "1 \<le> x") simp_all





lemma round_double_multiple:
  assumes "round_double x = Num r"
  shows "\<exists>m::int. r = of_int m * pow2 (max (ilog2 \<bar>x\<bar>) (- 1022) - 52)"
proof (cases "x = 0")
  case True
  with assms have "r = of_int 0 * pow2 (max (ilog2 \<bar>x\<bar>) (- 1022) - 52)"
    by (simp add: round_double_def)
  then show ?thesis by blast
next
  case False
  define e where "e = max (ilog2 \<bar>x\<bar>) (- 1022)"
  define m where "m = round_half_even (\<bar>x\<bar> / pow2 (e - 52))"
  have "r = sgn x * (of_int m * pow2 (e - 52))"
    using assms False
    by (simp add: round_double_def Let_def e_def m_def split: if_splits)
  then have "r = of_int (if 0 < x then m else - m) * pow2 (e - 52)"
    using False by (simp add: sgn_if)
  then show ?thesis
    unfolding e_def by blast
qed





section \<open>Facts about the handlers\<close>

subsection \<open>Event emission\<close>

lemma emitEvent_with_posts:
  "emitEvent (with_posts e n a) t pl =
     (fst (emitEvent e t pl),
      [\<lparr>target = NOTIFICATION_SERVICE, sent = fst (emitEvent e t pl), delivered = resolved n\<rparr>,
       \<lparr>target = ANALYTICS_SERVICE, sent = fst (emitEvent e t pl), delivered = resolved a\<rparr>])"
  by (cases n; cases a) (simp_all add: emitEvent_def with_posts_def try_post_def Let_def)

subsection \<open>user-service and the identity lookup\<close>

lemma getUser_unknown:
  "users ident = None \<Longrightarrow> settle (getUser users ident) = Rejected (BadStatus 404)"
  by (simp add: getUser_def settle_def)

lemma getUser_known:
  "users ident = Some user \<Longrightarrow> settle (getUser users ident) = Resolved (UserBody user)"
  by (simp add: getUser_def settle_def)

subsection \<open>payment-service\<close>

lemma postPayments_invalid:
  "validate req = Some d \<Longrightarrow>
   postPayments validate env req payments =
     \<lparr>reply = (400, PaymentError ''Invalid request''), store = payments,
      emitted = [], posts = []\<rparr>"
  by (simp add: postPayments_def)

lemma postPayments_completed:
  assumes "validate req = None" and "settles env"
  shows "reply (postPayments validate env req payments) =
           (201, PaymentBody
                   \<lparr>pj_id = newPaymentId env, pj_orderId = pr_orderId req,
                    pj_amount = pr_amount req,
                    pj_currency = or_else (pr_currency req) ''USD'' (\<lambda>c. c),
                    pj_status = ''completed'', pj_paymentMethod = pr_paymentMethod req,
                    pj_transactionId = Some (newTransactionId env),
                    pj_processedAt = Some (processedTime env), pj_error = None\<rparr>)"
    and "store (postPayments validate env req payments) =
           payments(newPaymentId env \<mapsto>
                   \<lparr>p_id = newPaymentId env, p_orderId = pr_orderId req,
                    p_amount = pr_amount req,
                    p_currency = or_else (pr_currency req) ''USD'' (\<lambda>c. c),
                    p_status = ''completed'', p_paymentMethod = pr_paymentMethod req,
                    p_createdAt = Some (payCreatedTime env),
                    p_processedAt = Some (processedTime env),
                    p_transactionId = Some (newTransactionId env), p_error = None,
                    p_refundedAt = None, p_refundTransactionId = None\<rparr>)"
  using assms by (simp_all add: postPayments_def processPayment_def emitEvent_def Let_def)

lemma postPayments_failed:
  assumes "validate req = None" and "\<not> settles env"
  shows "reply (postPayments validate env req payments) =
           (402, PaymentBody
                   \<lparr>pj_id = newPaymentId env, pj_orderId = pr_orderId req,
                    pj_amount = pr_amount req,
                    pj_currency = or_else (pr_currency req) ''USD'' (\<lambda>c. c),
                    pj_status = ''failed'', pj_paymentMethod = pr_paymentMethod req,
                    pj_transactionId = None,
                    pj_processedAt = Some (processedTime env),
                    pj_error = Some ''Payment declined by processor''\<rparr>)"
    and "store (postPayments validate env req payments) =
           payments(newPaymentId env \<mapsto>
                   \<lparr>p_id = newPaymentId env, p_orderId = pr_orderId req,
                    p_amount = pr_amount req,
                    p_currency = or_else (pr_currency req) ''USD'' (\<lambda>c. c),
                    p_status = ''failed'', p_paymentMethod = pr_paymentMethod req,
                    p_createdAt = Some (payCreatedTime env),
                    p_processedAt = Some (processedTime env),
                    p_transactionId = None, p_error = Some ''Payment declined by processor'',
                    p_refundedAt = None, p_refundTransactionId = None\<rparr>)"
  using assms by (simp_all add: postPayments_def processPayment_def emitEvent_def Let_def)

text \<open>A declined authorization is answered with 402, which axios turns into a rejection.\<close>

lemma postPayments_declined_rejected:
  "validate req = None \<Longrightarrow> \<not> settles env \<Longrightarrow>
   settle (reply (postPayments validate env req payments)) = Rejected (BadStatus 402)"
  by (simp add: settle_def postPayments_failed)

text \<open>A settled authorization reaches the caller as a payment of status completed.\<close>

lemma postPayments_settled_resolved:
  "validate req = None \<Longrightarrow> settles env \<Longrightarrow>
   \<exists>pj. settle (reply (postPayments validate env req payments)) = Resolved (PaymentBody pj) \<and>
        pj_status pj = ''completed'' \<and> pj_id pj = newPaymentId env"
  by (simp add: settle_def postPayments_completed)

lemma postPayments_posts_irrelevant:
  "reply (postPayments pv (penv\<lparr>payEmit := with_posts e n a\<rparr>) preq payments) =
     reply (postPayments pv (penv\<lparr>payEmit := e\<rparr>) preq payments) \<and>
   store (postPayments pv (penv\<lparr>payEmit := with_posts e n a\<rparr>) preq payments) =
     store (postPayments pv (penv\<lparr>payEmit := e\<rparr>) preq payments)"
proof (cases "pv preq")
  case (Some d)
  then show ?thesis by (simp add: postPayments_invalid)
next
  case None
  show ?thesis
  proof (cases "settles penv")
    case True
    with None show ?thesis by (simp add: postPayments_completed)
  next
    case False
    with None show ?thesis by (simp add: postPayments_failed)
  qed
qed

lemma refund_unknown:
  "payments ident = None \<Longrightarrow>
   refund env ident payments =
     \<lparr>reply = (404, RefundError ''Payment not found''), store = payments,
      emitted = [], posts = []\<rparr>"
  by (simp add: refund_def refund_check_def)

lemma refund_not_completed:
  "payments ident = Some p \<Longrightarrow> p_status p \<noteq> ''completed'' \<Longrightarrow>
   refund env ident payments =
     \<lparr>reply = (400, RefundError ''Cannot refund''), store = payments,
      emitted = [], posts = []\<rparr>"
  by (simp add: refund_def refund_check_def)

lemma refund_completed:
  assumes "payments ident = Some p" and "p_status p = ''completed''"
  shows "reply (refund env ident payments) =
           (200, RefundedBody (p\<lparr>p_status := ''refunded'',
                                 p_refundedAt := Some (refundTime env),
                                 p_refundTransactionId := Some (newRefundTransactionId env)\<rparr>))"
    and "store (refund env ident payments) =
           payments(ident \<mapsto> p\<lparr>p_status := ''refunded'',
                                 p_refundedAt := Some (refundTime env),
                                 p_refundTransactionId := Some (newRefundTransactionId env)\<rparr>)"
  using assms by (simp_all add: refund_def refund_check_def refund_write_def emitEvent_def Let_def)

lemma refund_posts_irrelevant:
  "reply (refund (renv\<lparr>refundEmit := with_posts e n a\<rparr>) pid payments) =
     reply (refund (renv\<lparr>refundEmit := e\<rparr>) pid payments) \<and>
   store (refund (renv\<lparr>refundEmit := with_posts e n a\<rparr>) pid payments) =
     store (refund (renv\<lparr>refundEmit := e\<rparr>) pid payments)"
  by (simp add: refund_def refund_check_def refund_write_def emitEvent_def Let_def
      split: option.splits)

text \<open>
  Two overlapping refunds of a completed payment both pass the check: both are answered
  200, each emits its event, and the second write replaces the refund time and the refund
  transaction reference of the first.
\<close>

lemma refund_overlapping_completed:
  assumes "payments ident = Some p" and "p_status p = ''completed''"
  shows "fst (reply (fst (refund_overlapping env1 env2 ident payments))) = 200"
    and "reply (snd (refund_overlapping env1 env2 ident payments)) =
           (200, RefundedBody
                   (p\<lparr>p_status := ''refunded'', p_refundedAt := Some (refundTime env2),
                      p_refundTransactionId := Some (newRefundTransactionId env2)\<rparr>))"
    and "store (fst (refund_overlapping env1 env2 ident payments)) =
           payments(ident \<mapsto> p\<lparr>p_status := ''refunded'',
                                 p_refundedAt := Some (refundTime env1),
                                 p_refundTransactionId := Some (newRefundTransactionId env1)\<rparr>)"
    and "store (snd (refund_overlapping env1 env2 ident payments)) =
           payments(ident \<mapsto> p\<lparr>p_status := ''refunded'',
                                 p_refundedAt := Some (refundTime env2),
                                 p_refundTransactionId := Some (newRefundTransactionId env2)\<rparr>)"
    and "length (emitted (fst (refund_overlapping env1 env2 ident payments)) @
                 emitted (snd (refund_overlapping env1 env2 ident payments))) = 2"
  using assms
  by (simp_all add: refund_overlapping_def refund_check_def refund_write_def emitEvent_def
      Let_def)

subsection \<open>order-service\<close>










text \<open>The totals written into the seeded orders are the totals of their items.\<close>

lemma seeded_totals:
  "calculateTotal (o_items ord_001) = o_totalAmount ord_001 \<and>
   calculateTotal (o_items ord_002) = o_totalAmount ord_002"
  by code_simp

lemma createOrder_invalid:
  "validate req = Some d \<Longrightarrow>
   createOrder validate env req orders =
     \<lparr>reply = (400, OrderError ''Invalid request''), store = orders,
      emitted = [], posts = []\<rparr>"
  by (simp add: createOrder_def)

lemma createOrder_lookup_rejected:
  "validate req = None \<Longrightarrow> userLookup env = Rejected err \<Longrightarrow>
   createOrder validate env req orders =
     \<lparr>reply = (400, OrderError ''Invalid user''), store = orders,
      emitted = [], posts = []\<rparr>"
  by (simp add: createOrder_def)

lemma createOrder_payment_rejected:
  assumes "validate req = None" and "userLookup env = Resolved u"
    and "paymentCall env = Rejected err"
  shows "reply (createOrder validate env req orders) =
           (201, OrderCreatedBody
                   \<lparr>o_id = newOrderId env, o_userId = req_userId req,
                    o_items = req_items req,
                    o_totalAmount = calculateTotal (req_items req), o_status = ''pending'',
                    o_paymentId = None, o_createdAt = createdTime env,
                    o_updatedAt = updatedTime env\<rparr> None)"
    and "store (createOrder validate env req orders) =
           orders(newOrderId env \<mapsto>
                   \<lparr>o_id = newOrderId env, o_userId = req_userId req,
                    o_items = req_items req,
                    o_totalAmount = calculateTotal (req_items req), o_status = ''pending'',
                    o_paymentId = None, o_createdAt = createdTime env,
                    o_updatedAt = updatedTime env\<rparr>)"
  using assms by (simp_all add: createOrder_def emitEvent_def Let_def)

lemma createOrder_payment_resolved:
  assumes "validate req = None" and "userLookup env = Resolved u"
    and "paymentCall env = Resolved payment"
  shows "reply (createOrder validate env req orders) =
           (201, OrderCreatedBody
                   \<lparr>o_id = newOrderId env, o_userId = req_userId req,
                    o_items = req_items req,
                    o_totalAmount = calculateTotal (req_items req),
                    o_status = (if body_status payment = Some ''completed''
                                then ''confirmed'' else ''pending''),
                    o_paymentId = body_id payment, o_createdAt = createdTime env,
                    o_updatedAt = paidTime env\<rparr> (Some payment))"
    and "store (createOrder validate env req orders) =
           orders(newOrderId env \<mapsto>
                   \<lparr>o_id = newOrderId env, o_userId = req_userId req,
                    o_items = req_items req,
                    o_totalAmount = calculateTotal (req_items req),
                    o_status = (if body_status payment = Some ''completed''
                                then ''confirmed'' else ''pending''),
                    o_paymentId = body_id payment, o_createdAt = createdTime env,
                    o_updatedAt = paidTime env\<rparr>)"
  using assms by (simp_all add: createOrder_def emitEvent_def Let_def)

text \<open>
  The two services together: when payment-service settles the authorization and its
  response reaches order-service, the order is confirmed under the id of the new payment.
\<close>

lemma createOrder_with_settled_payment:
  assumes "validate req = None" and "userLookup env = Resolved u"
    and "pvalidate preq = None" and "settles penv"
    and "paymentCall env = settle (reply (postPayments pvalidate penv preq payments))"
  shows "map_option o_status (store (createOrder validate env req orders) (newOrderId env)) =
           Some ''confirmed'' \<and>
         map_option o_paymentId (store (createOrder validate env req orders) (newOrderId env)) =
           Some (Some (newPaymentId penv)) \<and>
         map_option p_status
           (store (postPayments pvalidate penv preq payments) (newPaymentId penv)) =
           Some ''completed''"
proof -
  obtain pj where pj: "paymentCall env = Resolved (PaymentBody pj)"
      "pj_status pj = ''completed''" "pj_id pj = newPaymentId penv"
    using postPayments_settled_resolved
        [where validate = pvalidate and req = preq and env = penv and payments = payments]
      assms(3,4,5)
    by auto
  have "store (createOrder validate env req orders) (newOrderId env) =
          Some \<lparr>o_id = newOrderId env, o_userId = req_userId req,
                o_items = req_items req,
                o_totalAmount = calculateTotal (req_items req),
                o_status = ''confirmed'', o_paymentId = Some (newPaymentId penv),
                o_createdAt = createdTime env, o_updatedAt = paidTime env\<rparr>"
    using assms(1,2) pj by (simp add: createOrder_payment_resolved)
  moreover have "map_option p_status
      (store (postPayments pvalidate penv preq payments) (newPaymentId penv)) =
      Some ''completed''"
    using assms(3,4) by (simp add: postPayments_completed)
  ultimately show ?thesis
    by simp
qed


lemma createOrder_posts_irrelevant:
  "reply (createOrder v (cenv\<lparr>createEmit := with_posts e n a\<rparr>) req orders) =
     reply (createOrder v (cenv\<lparr>createEmit := e\<rparr>) req orders) \<and>
   store (createOrder v (cenv\<lparr>createEmit := with_posts e n a\<rparr>) req orders) =
     store (createOrder v (cenv\<lparr>createEmit := e\<rparr>) req orders)"
  by (simp add: createOrder_def emitEvent_def Let_def split: option.splits axios_result.splits)

lemma updateStatus_unknown:
  "orders ident = None \<Longrightarrow>
   updateStatus env ident status orders =
     \<lparr>reply = (404, OrderError ''Order not found''), store = orders,
      emitted = [], posts = []\<rparr>"
  by (simp add: updateStatus_def)


lemma updateStatus_posts_irrelevant:
  "reply (updateStatus (senv\<lparr>statusEmit := with_posts e n a\<rparr>) ident status orders) =
     reply (updateStatus (senv\<lparr>statusEmit := e\<rparr>) ident status orders) \<and>
   store (updateStatus (senv\<lparr>statusEmit := with_posts e n a\<rparr>) ident status orders) =
     store (updateStatus (senv\<lparr>statusEmit := e\<rparr>) ident status orders)"
  by (simp add: updateStatus_def emitEvent_def Let_def split: option.splits)

text \<open>
  Whatever the order's status was, the \<open>previousStatus\<close> of the event is the status
  just written.
\<close>

lemma updateStatus_previousStatus_is_new:
  assumes "orders ident = Some old" and "status \<in> set validStatuses"
  shows "map payload (emitted (updateStatus env ident status orders)) =
           [OrderUpdated \<lparr>ou_orderId = ident, ou_userId = o_userId old,
                          ou_status = status, ou_previousStatus = status\<rparr>]"
  using assms by (simp add: updateStatus_def emitEvent_def Let_def)

section \<open>The claims\<close>

subsection \<open>C1: status transitions\<close>

text \<open>
  C1, as stated, fails: \<open>updateStatus\<close> has no transition table. An order in status
  delivered is moved to pending, a transition the specification's state machine does not
  have; the request is answered with 200 and the stored status changes.
\<close>

theorem updateStatus_delivered_to_pending_counterexample:
  "\<not> spec_transition ''delivered'' ''pending'' \<and>
   fst (reply (updateStatus demo_status_env ''ord-001'' ''pending''
                 [''ord-001'' \<mapsto> ord_001\<lparr>o_status := ''delivered''\<rparr>])) = 200 \<and>
   map_option o_status
     (store (updateStatus demo_status_env ''ord-001'' ''pending''
               [''ord-001'' \<mapsto> ord_001\<lparr>o_status := ''delivered''\<rparr>]) ''ord-001'') =
     Some ''pending''"
  by (simp add: updateStatus_def validStatuses_def emitEvent_def Let_def)

text \<open>
  C1, amended: for every persisted order and every requested new status, UpdateStatus
  succeeds whenever the requested status is one of pending, confirmed, shipped, delivered
  and cancelled, whatever the order's current status, and the order then has the requested
  status; a requested status outside these five fails with Invalid status (HTTP 400) and
  leaves the store unchanged.
\<close>

theorem updateStatus_accepts_valid_status:
  assumes "orders ident = Some old"
  shows "(status \<in> set validStatuses \<longrightarrow>
            reply (updateStatus env ident status orders) =
              (200, StatusUpdatedBody
                      (old\<lparr>o_status := status, o_updatedAt := statusTime env\<rparr>)) \<and>
            store (updateStatus env ident status orders) =
              orders(ident \<mapsto> old\<lparr>o_status := status, o_updatedAt := statusTime env\<rparr>)) \<and>
         (status \<notin> set validStatuses \<longrightarrow>
            reply (updateStatus env ident status orders) =
              (400, OrderError ''Invalid status'') \<and>
            store (updateStatus env ident status orders) = orders)"
  using assms by (simp add: updateStatus_def emitEvent_def Let_def)

text \<open>The amended C1 on the seeded store: confirmed to pending succeeds, paid is refused.\<close>

theorem updateStatus_accepts_valid_status_witness:
  "seeded_orders ''ord-001'' = Some ord_001 \<and>
   ''pending'' \<in> set validStatuses \<and>
   reply (updateStatus demo_status_env ''ord-001'' ''pending'' seeded_orders) =
     (200, StatusUpdatedBody
             (ord_001\<lparr>o_status := ''pending'', o_updatedAt := ''2024-02-01T00:00:01Z''\<rparr>)) \<and>
   ''paid'' \<notin> set validStatuses \<and>
   reply (updateStatus demo_status_env ''ord-001'' ''paid'' seeded_orders) =
     (400, OrderError ''Invalid status'') \<and>
   store (updateStatus demo_status_env ''ord-001'' ''paid'' seeded_orders) = seeded_orders"
proof -
  have h: "seeded_orders ''ord-001'' = Some ord_001"
    by (simp add: seeded_orders_def)
  show ?thesis
    using h
      updateStatus_accepts_valid_status
        [where orders = seeded_orders and ident = "''ord-001''" and old = ord_001
           and status = "''pending''" and env = demo_status_env]
      updateStatus_accepts_valid_status
        [where orders = seeded_orders and ident = "''ord-001''" and old = ord_001
           and status = "''paid''" and env = demo_status_env]
    by (simp add: validStatuses_def demo_status_env_def)
qed

subsection \<open>C2: a failed payment authorization keeps the order\<close>

text \<open>
  C2: for every CreateOrder call that passes validation and the identity lookup and whose
  payment authorization fails (the call times out, gets no response, or payment-service
  declines and answers 402), the order is in the store under its identifier with status
  pending and no paymentId, and the caller receives 201 with that order.
\<close>

theorem createOrder_payment_failure_keeps_order:
  assumes "validate req = None" and "userLookup env = Resolved u"
    and "paymentCall env = Rejected Timeout \<or> paymentCall env = Rejected NoResponse \<or>
         (pvalidate preq = None \<and> \<not> settles penv \<and>
          paymentCall env = settle (reply (postPayments pvalidate penv preq payments)))"
  shows "\<exists>order. store (createOrder validate env req orders) (newOrderId env) = Some order \<and>
           o_status order = ''pending'' \<and> o_paymentId order = None \<and>
           reply (createOrder validate env req orders) = (201, OrderCreatedBody order None)"
proof -
  from assms(3) obtain err where "paymentCall env = Rejected err"
    using postPayments_declined_rejected by metis
  with assms(1,2) show ?thesis
    by (simp add: createOrder_payment_rejected)
qed

text \<open>C2 on a run where payment-service declines.\<close>

theorem createOrder_payment_failure_keeps_order_witness:
  "accept_all demo_request = None \<and>
   accept_all demo_payment_request = None \<and> \<not> settles (demo_pay_env False) \<and>
   (\<exists>order.
      store (createOrder accept_all
               (demo_create_env (Resolved ())
                  (settle (reply (postPayments accept_all (demo_pay_env False)
                                    demo_payment_request seeded_payments))))
               demo_request seeded_orders) ''ord-x1'' = Some order \<and>
      o_status order = ''pending'' \<and> o_paymentId order = None \<and>
      reply (createOrder accept_all
               (demo_create_env (Resolved ())
                  (settle (reply (postPayments accept_all (demo_pay_env False)
                                    demo_payment_request seeded_payments))))
               demo_request seeded_orders) = (201, OrderCreatedBody order None))"
proof -
  let ?call = "settle (reply (postPayments accept_all (demo_pay_env False)
                                demo_payment_request seeded_payments))"
  let ?env = "demo_create_env (Resolved ()) ?call :: unit create_env"
  have a: "accept_all demo_request = None"
    by (simp add: accept_all_def)
  have b: "userLookup ?env = Resolved ()"
    by (simp add: demo_create_env_def)
  have c: "accept_all demo_payment_request = None \<and> \<not> settles (demo_pay_env False) \<and>
           paymentCall ?env = ?call"
    by (simp add: accept_all_def demo_pay_env_def demo_create_env_def)
  have d: "newOrderId ?env = ''ord-x1''"
    by (simp add: demo_create_env_def)
  from c have c': "paymentCall ?env = Rejected Timeout \<or> paymentCall ?env = Rejected NoResponse \<or>
      (accept_all demo_payment_request = None \<and> \<not> settles (demo_pay_env False) \<and>
       paymentCall ?env = ?call)"
    by blast
  show ?thesis
    using a c d
      createOrder_payment_failure_keeps_order
        [where validate = accept_all and req = demo_request and env = ?env and u = "()"
           and pvalidate = accept_all and preq = demo_payment_request
           and penv = "demo_pay_env False" and payments = seeded_payments
           and orders = seeded_orders, OF a b c']
    by simp
qed

subsection \<open>C3: a failed identity lookup creates no order\<close>

text \<open>
  C3: for every CreateOrder call that passes validation and whose identity lookup fails
  (the user is unknown to user-service, which answers 404, or the call times out or gets
  no response), the operation fails with Invalid user (HTTP 400) and the order store is
  unchanged, so its size is unchanged.
\<close>

theorem createOrder_invalid_user:
  assumes "validate req = None"
    and "userLookup env = Rejected Timeout \<or> userLookup env = Rejected NoResponse \<or>
         (users (req_userId req) = None \<and>
          userLookup env = settle (getUser users (req_userId req)))"
  shows "reply (createOrder validate env req orders) = (400, OrderError ''Invalid user'') \<and>
         store (createOrder validate env req orders) = orders \<and>
         card (dom (store (createOrder validate env req orders))) = card (dom orders)"
proof -
  from assms(2) obtain err where "userLookup env = Rejected err"
    using getUser_unknown by metis
  with assms(1) show ?thesis
    by (simp add: createOrder_lookup_rejected)
qed

text \<open>C3 on a run where user-service does not know the user.\<close>

theorem createOrder_invalid_user_witness:
  "accept_all demo_request = None \<and>
   (Map.empty :: string \<rightharpoonup> unit) (req_userId demo_request) = None \<and>
   reply (createOrder accept_all
            (demo_create_env (settle (getUser (Map.empty :: string \<rightharpoonup> unit) ''u1''))
               (Rejected Timeout))
            demo_request seeded_orders) = (400, OrderError ''Invalid user'') \<and>
   store (createOrder accept_all
            (demo_create_env (settle (getUser (Map.empty :: string \<rightharpoonup> unit) ''u1''))
               (Rejected Timeout))
            demo_request seeded_orders) = seeded_orders"
proof -
  let ?users = "Map.empty :: string \<rightharpoonup> unit"
  let ?env = "demo_create_env (settle (getUser ?users ''u1'')) (Rejected Timeout)"
  have a: "accept_all demo_request = None"
    by (simp add: accept_all_def)
  have b: "userLookup ?env = Rejected Timeout \<or> userLookup ?env = Rejected NoResponse \<or>
           (?users (req_userId demo_request) = None \<and>
            userLookup ?env = settle (getUser ?users (req_userId demo_request)))"
    by (simp add: demo_create_env_def demo_request_def)
  show ?thesis
    using a
      createOrder_invalid_user
        [where validate = accept_all and req = demo_request and env = ?env
           and users = ?users and orders = seeded_orders, OF a b]
    by simp
qed

subsection \<open>C4: the total of an order\<close>




subsection \<open>C5: refunds\<close>

text \<open>
  When each refund request runs to its end before the next one starts, Refund does what
  the specification says: Payment not found (HTTP 404) for an unknown payment, Cannot
  refund (HTTP 400) for a payment whose status is anything other than completed, each
  time leaving the store unchanged; on a completed payment it succeeds and the payment
  becomes refunded, after which every further Refund of the same payment fails with Cannot
  refund and changes nothing.
\<close>

lemma refund_one_after_the_other:
  "(payments ident = None \<longrightarrow>
      reply (refund env ident payments) = (404, RefundError ''Payment not found'') \<and>
      store (refund env ident payments) = payments) \<and>
   (\<forall>p. payments ident = Some p \<and> p_status p \<noteq> ''completed'' \<longrightarrow>
      reply (refund env ident payments) = (400, RefundError ''Cannot refund'') \<and>
      store (refund env ident payments) = payments) \<and>
   (\<forall>p. payments ident = Some p \<and> p_status p = ''completed'' \<longrightarrow>
      fst (reply (refund env ident payments)) = 200 \<and>
      map_option p_status (store (refund env ident payments) ident) = Some ''refunded'' \<and>
      (\<forall>env'. reply (refund env' ident (store (refund env ident payments))) =
                 (400, RefundError ''Cannot refund'') \<and>
               store (refund env' ident (store (refund env ident payments))) =
                 store (refund env ident payments)))"
proof (intro conjI allI impI)
  fix p env'
  assume a: "payments ident = Some p \<and> p_status p = ''completed''"
  let ?p' = "p\<lparr>p_status := ''refunded'', p_refundedAt := Some (refundTime env),
               p_refundTransactionId := Some (newRefundTransactionId env)\<rparr>"
  have s: "store (refund env ident payments) = payments(ident \<mapsto> ?p')"
    using a by (simp add: refund_completed)
  have again: "refund env' ident (payments(ident \<mapsto> ?p')) =
      \<lparr>reply = (400, RefundError ''Cannot refund''), store = payments(ident \<mapsto> ?p'),
       emitted = [], posts = []\<rparr>"
    by (rule refund_not_completed [where p = ?p']) simp_all
  show "fst (reply (refund env ident payments)) = 200"
    using a by (simp add: refund_completed)
  show "map_option p_status (store (refund env ident payments) ident) = Some ''refunded''"
    by (simp add: s)
  show "reply (refund env' ident (store (refund env ident payments))) =
          (400, RefundError ''Cannot refund'')"
    by (simp add: s again)
  show "store (refund env' ident (store (refund env ident payments))) =
          store (refund env ident payments)"
    by (simp add: s again)
qed (simp_all add: refund_unknown refund_not_completed)

text \<open>
  C5 on two refund requests for the seeded completed payment pay-001, the second arriving
  within the 500 ms for which the first waits between its status check and its write:
  both pass the check and both are answered 200. The payment is refunded twice: two events
  are emitted, and the second write replaces the refund time and the refund transaction
  reference that the first had stored.
\<close>

theorem refund_overlapping_pay_001:
  "map_option p_status (seeded_payments ''pay-001'') = Some ''completed'' \<and>
   fst (reply (fst (refund_overlapping demo_refund_env demo_refund_env2 ''pay-001''
                      seeded_payments))) = 200 \<and>
   fst (reply (snd (refund_overlapping demo_refund_env demo_refund_env2 ''pay-001''
                      seeded_payments))) = 200 \<and>
   map_option p_refundTransactionId
     (store (fst (refund_overlapping demo_refund_env demo_refund_env2 ''pay-001''
                    seeded_payments)) ''pay-001'') = Some (Some ''txn_r1'') \<and>
   map_option p_refundTransactionId
     (store (snd (refund_overlapping demo_refund_env demo_refund_env2 ''pay-001''
                    seeded_payments)) ''pay-001'') = Some (Some ''txn_r2'') \<and>
   map eventType
     (emitted (fst (refund_overlapping demo_refund_env demo_refund_env2 ''pay-001''
                      seeded_payments)) @
      emitted (snd (refund_overlapping demo_refund_env demo_refund_env2 ''pay-001''
                      seeded_payments))) = [PAYMENT_FAILED, PAYMENT_FAILED]"
  by (simp add: refund_overlapping_def refund_check_def refund_write_def emitEvent_def Let_def
      seeded_payments_def pay_001_def demo_refund_env_def demo_refund_env2_def)

subsection \<open>C6: the event of a refund\<close>

text \<open>
  C6, as stated, fails on the event kind: refunding the seeded completed payment pay-001
  succeeds and emits one event, whose kind is \<open>EventTypes.PAYMENT_FAILED\<close>, not
  PaymentRefunded.
\<close>

theorem refund_event_kind_counterexample:
  "map_option p_status (seeded_payments ''pay-001'') = Some ''completed'' \<and>
   fst (reply (refund demo_refund_env ''pay-001'' seeded_payments)) = 200 \<and>
   map eventType (emitted (refund demo_refund_env ''pay-001'' seeded_payments)) =
     [PAYMENT_FAILED] \<and>
   PAYMENT_FAILED \<noteq> PAYMENT_REFUNDED"
  by (simp add: refund_def refund_check_def refund_write_def emitEvent_def Let_def
      seeded_payments_def pay_001_def)

text \<open>
  C6, amended: for every successful Refund of a completed payment, the payment transitions
  to refunded, is assigned a refund transaction reference, and the one event emitted
  through the dispatcher (posted to both subscribers) has event kind PaymentFailed
  (\<open>EventTypes.PAYMENT_FAILED\<close>) and a payload with reason refund that carries the
  refund time and the refund transaction reference.
\<close>

theorem refund_emits_payment_failed:
  assumes "payments ident = Some p" and "p_status p = ''completed''"
  shows "\<exists>p'. store (refund env ident payments) ident = Some p' \<and>
           reply (refund env ident payments) = (200, RefundedBody p') \<and>
           p_status p' = ''refunded'' \<and>
           p_refundTransactionId p' = Some (newRefundTransactionId env) \<and>
           map eventType (emitted (refund env ident payments)) = [PAYMENT_FAILED] \<and>
           map payload (emitted (refund env ident payments)) =
             [Refund \<lparr>rf_paymentId = ident, rf_orderId = p_orderId p, rf_reason = ''refund'',
                      rf_amount = p_amount p, rf_refundedAt = p_refundedAt p',
                      rf_refundTransactionId = p_refundTransactionId p'\<rparr>] \<and>
           map target (posts (refund env ident payments)) =
             [NOTIFICATION_SERVICE, ANALYTICS_SERVICE] \<and>
           map sent (posts (refund env ident payments)) =
             emitted (refund env ident payments) @ emitted (refund env ident payments)"
  using assms
  by (simp add: refund_def refund_check_def refund_write_def emitEvent_def try_post_def
      Let_def split: axios_result.splits)

text \<open>The amended C6 on the seeded payment pay-001.\<close>

theorem refund_emits_payment_failed_witness:
  "seeded_payments ''pay-001'' = Some pay_001 \<and> p_status pay_001 = ''completed'' \<and>
   (\<exists>p'. store (refund demo_refund_env ''pay-001'' seeded_payments) ''pay-001'' = Some p' \<and>
      p_status p' = ''refunded'' \<and> p_refundTransactionId p' = Some ''txn_r1'' \<and>
      map eventType (emitted (refund demo_refund_env ''pay-001'' seeded_payments)) =
        [PAYMENT_FAILED])"
proof -
  have a: "seeded_payments ''pay-001'' = Some pay_001"
    by (simp add: seeded_payments_def)
  have b: "p_status pay_001 = ''completed''"
    by (simp add: pay_001_def)
  have c: "newRefundTransactionId demo_refund_env = ''txn_r1''"
    by (simp add: demo_refund_env_def)
  show ?thesis
    using a b c
      refund_emits_payment_failed
        [where payments = seeded_payments and ident = "''pay-001''" and p = pay_001
           and env = demo_refund_env, OF a b]
    by auto
qed

subsection \<open>C7: the previous status in the OrderUpdated event\<close>

text \<open>
  C7 on the seeded order ord-002, whose status is pending: updating it to confirmed emits
  an OrderUpdated event whose previousStatus is confirmed, the new status, not pending.
  The payload is built after \<open>order.status = status\<close> has run.
\<close>

theorem updateStatus_previousStatus_ord_002:
  "map_option o_status (seeded_orders ''ord-002'') = Some ''pending'' \<and>
   fst (reply (updateStatus demo_status_env ''ord-002'' ''confirmed'' seeded_orders)) = 200 \<and>
   map payload
     (emitted (updateStatus demo_status_env ''ord-002'' ''confirmed'' seeded_orders)) =
     [OrderUpdated \<lparr>ou_orderId = ''ord-002'', ou_userId = ''usr-002'',
                    ou_status = ''confirmed'', ou_previousStatus = ''confirmed''\<rparr>]"
  by (simp add: updateStatus_def validStatuses_def emitEvent_def Let_def seeded_orders_def
      ord_002_def)

subsection \<open>C8: a successful payment authorization confirms the order\<close>

text \<open>
  C8: for every CreateOrder call that passes validation and the identity lookup and whose
  payment call resolves with a payment of status completed, the persisted order has status
  confirmed and a paymentId that is not null and equals the id of the payment returned to
  the caller.
\<close>

theorem createOrder_payment_success_confirms:
  assumes "validate req = None" and "userLookup env = Resolved u"
    and "paymentCall env = Resolved payment" and "body_status payment = Some ''completed''"
  shows "\<exists>order pid.
           store (createOrder validate env req orders) (newOrderId env) = Some order \<and>
           o_status order = ''confirmed'' \<and> o_paymentId order = Some pid \<and>
           body_id payment = Some pid \<and>
           reply (createOrder validate env req orders) =
             (201, OrderCreatedBody order (Some payment))"
  using assms by (cases payment) (simp_all add: createOrder_payment_resolved)

text \<open>C8 on a run where the payment pay-x1 settles.\<close>

theorem createOrder_payment_success_confirms_witness:
  "accept_all demo_request = None \<and>
   body_status (PaymentBody demo_payment_json) = Some ''completed'' \<and>
   (\<exists>order.
      store (createOrder accept_all
               (demo_create_env (Resolved ()) (Resolved (PaymentBody demo_payment_json)))
               demo_request seeded_orders) ''ord-x1'' = Some order \<and>
      o_status order = ''confirmed'' \<and> o_paymentId order = Some ''pay-x1'')"
proof -
  let ?env = "demo_create_env (Resolved ()) (Resolved (PaymentBody demo_payment_json))
                :: unit create_env"
  have a: "accept_all demo_request = None"
    by (simp add: accept_all_def)
  have b: "userLookup ?env = Resolved ()"
    by (simp add: demo_create_env_def)
  have c: "paymentCall ?env = Resolved (PaymentBody demo_payment_json)"
    by (simp add: demo_create_env_def)
  have d: "body_status (PaymentBody demo_payment_json) = Some ''completed''"
    by (simp add: demo_payment_json_def)
  have e: "newOrderId ?env = ''ord-x1'' \<and>
           body_id (PaymentBody demo_payment_json) = Some ''pay-x1''"
    by (simp add: demo_create_env_def demo_payment_json_def)
  show ?thesis
    using a d e
      createOrder_payment_success_confirms
        [where validate = accept_all and req = demo_request and env = ?env and u = "()"
           and payment = "PaymentBody demo_payment_json" and orders = seeded_orders,
         OF a b c d]
    by auto
qed

subsection \<open>C9: delivery failures stay inside the dispatcher\<close>

text \<open>
  C9: for every published event and every outcome \<open>n\<close>, \<open>a\<close> of the two subscriber
  deliveries, both subscribers are posted the same event, notification first and analytics
  second, each attempt ending as its own outcome says; and the response and the store of
  each publishing operation (CreateOrder, UpdateStatus, Authorize, Refund) are the same
  for every pair of outcomes.
\<close>

theorem delivery_failure_is_contained:
  "map target (snd (emitEvent (with_posts e n a) t pl)) =
     [NOTIFICATION_SERVICE, ANALYTICS_SERVICE] \<and>
   map sent (snd (emitEvent (with_posts e n a) t pl)) =
     [fst (emitEvent e t pl), fst (emitEvent e t pl)] \<and>
   map delivered (snd (emitEvent (with_posts e n a) t pl)) = [resolved n, resolved a] \<and>
   fst (emitEvent (with_posts e n a) t pl) = fst (emitEvent e t pl) \<and>
   reply (createOrder v (cenv\<lparr>createEmit := with_posts e n a\<rparr>) req orders) =
     reply (createOrder v (cenv\<lparr>createEmit := e\<rparr>) req orders) \<and>
   store (createOrder v (cenv\<lparr>createEmit := with_posts e n a\<rparr>) req orders) =
     store (createOrder v (cenv\<lparr>createEmit := e\<rparr>) req orders) \<and>
   reply (updateStatus (senv\<lparr>statusEmit := with_posts e n a\<rparr>) ident status orders) =
     reply (updateStatus (senv\<lparr>statusEmit := e\<rparr>) ident status orders) \<and>
   store (updateStatus (senv\<lparr>statusEmit := with_posts e n a\<rparr>) ident status orders) =
     store (updateStatus (senv\<lparr>statusEmit := e\<rparr>) ident status orders) \<and>
   reply (postPayments pv (penv\<lparr>payEmit := with_posts e n a\<rparr>) preq payments) =
     reply (postPayments pv (penv\<lparr>payEmit := e\<rparr>) preq payments) \<and>
   store (postPayments pv (penv\<lparr>payEmit := with_posts e n a\<rparr>) preq payments) =
     store (postPayments pv (penv\<lparr>payEmit := e\<rparr>) preq payments) \<and>
   reply (refund (renv\<lparr>refundEmit := with_posts e n a\<rparr>) pid payments) =
     reply (refund (renv\<lparr>refundEmit := e\<rparr>) pid payments) \<and>
   store (refund (renv\<lparr>refundEmit := with_posts e n a\<rparr>) pid payments) =
     store (refund (renv\<lparr>refundEmit := e\<rparr>) pid payments)"
  by (simp add: emitEvent_with_posts createOrder_posts_irrelevant
      updateStatus_posts_irrelevant postPayments_posts_irrelevant refund_posts_irrelevant)

text \<open>
  C9 on a status update of the seeded order ord-002: with the notification subscriber
  unreachable, analytics is still posted the event and acknowledges it, and the response is
  the one of the run where both deliveries succeed.
\<close>

theorem delivery_failure_is_contained_witness:
  "map target (snd (emitEvent (with_posts demo_emit (Rejected NoResponse) (Resolved ()))
                      ORDER_CREATED (OrderCreated demo_created_payload))) =
     [NOTIFICATION_SERVICE, ANALYTICS_SERVICE] \<and>
   map delivered (snd (emitEvent (with_posts demo_emit (Rejected NoResponse) (Resolved ()))
                         ORDER_CREATED (OrderCreated demo_created_payload))) =
     [False, True] \<and>
   reply (updateStatus
            (demo_status_env
               \<lparr>statusEmit := with_posts demo_emit (Rejected NoResponse) (Resolved ())\<rparr>)
            ''ord-002'' ''confirmed'' seeded_orders) =
     reply (updateStatus (demo_status_env\<lparr>statusEmit := demo_emit\<rparr>)
              ''ord-002'' ''confirmed'' seeded_orders)"
  using delivery_failure_is_contained
    [where e = demo_emit and n = "Rejected NoResponse" and a = "Resolved ()"
       and t = ORDER_CREATED and pl = "OrderCreated demo_created_payload"
       and senv = demo_status_env
       and ident = "''ord-002''" and status = "''confirmed''" and orders = seeded_orders
       and v = accept_all and req = demo_request
       and cenv = "demo_create_env (Resolved ()) (Rejected Timeout)"
       and pv = accept_all and penv = "demo_pay_env True" and preq = demo_payment_request
       and payments = seeded_payments and renv = demo_refund_env and pid = "''pay-001''"]
  by simp

subsection \<open>C10: a failed channel delivery is still a 201\<close>

text \<open>
  C10: for every direct Notify call that passes validation and whose user resolution
  succeeds, the response is HTTP 201, also when the simulated channel delivery fails; in
  that case the notification is in the store under its identifier with status failed, and
  it is the notification of the response.
\<close>

theorem notify_delivery_failure_is_201:
  assumes "validate req = None" and "notifyUser env = Resolved u"
  shows "fst (reply (notify validate env req notifications)) = 201 \<and>
         (\<not> sendSucceeds env \<longrightarrow>
            (\<exists>n. store (notify validate env req notifications) (newNotificationId env) =
                    Some n \<and>
                 n_status n = ''failed'' \<and>
                 reply (notify validate env req notifications) =
                   (201, NotifyBody n ''Failed to send notification'')))"
  using assms by (simp add: notify_def fetchUser_def sendNotification_def Let_def)

text \<open>C10 on a run where the delivery fails.\<close>

theorem notify_delivery_failure_is_201_witness:
  "accept_all demo_notification_request = None \<and>
   \<not> sendSucceeds (demo_notify_env (Resolved ()) False) \<and>
   fst (reply (notify accept_all (demo_notify_env (Resolved ()) False)
                 demo_notification_request Map.empty)) = 201 \<and>
   (\<exists>n. store (notify accept_all (demo_notify_env (Resolved ()) False)
                  demo_notification_request Map.empty) ''ntf-x1'' = Some n \<and>
        n_status n = ''failed'')"
proof -
  let ?env = "demo_notify_env (Resolved ()) False :: unit notify_env"
  have a: "accept_all demo_notification_request = None"
    by (simp add: accept_all_def)
  have b: "notifyUser ?env = Resolved ()"
    by (simp add: demo_notify_env_def)
  have c: "\<not> sendSucceeds ?env \<and> newNotificationId ?env = ''ntf-x1''"
    by (simp add: demo_notify_env_def)
  show ?thesis
    using a c
      notify_delivery_failure_is_201
        [where validate = accept_all and req = demo_notification_request and env = ?env
           and u = "()" and notifications = Map.empty, OF a b]
    by auto
qed

end
